theory Spec2Isabelle
  imports Complex_Main
begin

section \<open>JavaScript values used by the payroll route\<close>

text \<open>
  The payroll computation of \<^verbatim>\<open>src/server.js\<close> (route \<^verbatim>\<open>GET /api/payroll\<close>) works on
  JavaScript numbers. A number is modelled as an exact rational or one of the three special
  values of IEEE arithmetic. The model keeps what the route's control flow depends on
  (\<^verbatim>\<open>NaN\<close> from \<^verbatim>\<open>parseFloat\<close>, the infinities and \<^verbatim>\<open>NaN\<close> from a division by zero, the
  comparisons that are false on \<^verbatim>\<open>NaN\<close>); it does not model the rounding of binary
  floating point (finite arithmetic is exact), overflow to infinity, or the sign of zero.
\<close>

datatype jsnum = Fin rat | NaN | PInf | NInf

fun is_neg :: "jsnum \<Rightarrow> bool" where
  "is_neg (Fin a) = (a < 0)"
| "is_neg NInf = True"
| "is_neg PInf = False"
| "is_neg NaN = False"

definition inf_of_sign :: "bool \<Rightarrow> jsnum" where
  "inf_of_sign neg = (if neg then NInf else PInf)"

text \<open>\<^verbatim>\<open>x + y\<close> on numbers.\<close>

fun jadd :: "jsnum \<Rightarrow> jsnum \<Rightarrow> jsnum" where
  "jadd NaN y = NaN"
| "jadd (Fin a) NaN = NaN"
| "jadd (Fin a) (Fin b) = Fin (a + b)"
| "jadd (Fin a) PInf = PInf"
| "jadd (Fin a) NInf = NInf"
| "jadd PInf NaN = NaN"
| "jadd PInf NInf = NaN"
| "jadd PInf (Fin b) = PInf"
| "jadd PInf PInf = PInf"
| "jadd NInf NaN = NaN"
| "jadd NInf PInf = NaN"
| "jadd NInf (Fin b) = NInf"
| "jadd NInf NInf = NInf"

fun jneg :: "jsnum \<Rightarrow> jsnum" where
  "jneg (Fin a) = Fin (- a)"
| "jneg NaN = NaN"
| "jneg PInf = NInf"
| "jneg NInf = PInf"

text \<open>\<^verbatim>\<open>x - y\<close>.\<close>

definition jsub :: "jsnum \<Rightarrow> jsnum \<Rightarrow> jsnum" where
  "jsub x y = jadd x (jneg y)"

text \<open>\<^verbatim>\<open>x * y\<close>: an infinity times zero is \<^verbatim>\<open>NaN\<close>.\<close>

fun jmul :: "jsnum \<Rightarrow> jsnum \<Rightarrow> jsnum" where
  "jmul NaN y = NaN"
| "jmul (Fin a) NaN = NaN"
| "jmul PInf NaN = NaN"
| "jmul NInf NaN = NaN"
| "jmul (Fin a) (Fin b) = Fin (a * b)"
| "jmul (Fin a) PInf = (if a = 0 then NaN else inf_of_sign (a < 0))"
| "jmul (Fin a) NInf = (if a = 0 then NaN else inf_of_sign (\<not> a < 0))"
| "jmul PInf (Fin b) = (if b = 0 then NaN else inf_of_sign (b < 0))"
| "jmul NInf (Fin b) = (if b = 0 then NaN else inf_of_sign (\<not> b < 0))"
| "jmul PInf PInf = PInf"
| "jmul PInf NInf = NInf"
| "jmul NInf PInf = NInf"
| "jmul NInf NInf = PInf"

text \<open>
  \<^verbatim>\<open>x / y\<close>: a finite non-zero number divided by zero is an infinity, zero divided by zero
  is \<^verbatim>\<open>NaN\<close>, a finite number divided by an infinity is zero.
\<close>

fun jdiv :: "jsnum \<Rightarrow> jsnum \<Rightarrow> jsnum" where
  "jdiv NaN y = NaN"
| "jdiv (Fin a) NaN = NaN"
| "jdiv PInf NaN = NaN"
| "jdiv NInf NaN = NaN"
| "jdiv (Fin a) (Fin b) =
     (if b = 0 then (if a = 0 then NaN else inf_of_sign (a < 0)) else Fin (a / b))"
| "jdiv (Fin a) PInf = Fin 0"
| "jdiv (Fin a) NInf = Fin 0"
| "jdiv PInf (Fin b) = inf_of_sign (b < 0)"
| "jdiv NInf (Fin b) = inf_of_sign (\<not> b < 0)"
| "jdiv PInf PInf = NaN"
| "jdiv PInf NInf = NaN"
| "jdiv NInf PInf = NaN"
| "jdiv NInf NInf = NaN"

text \<open>\<^verbatim>\<open>x < y\<close>, \<^verbatim>\<open>x > y\<close> and \<^verbatim>\<open>x <= y\<close>: every comparison with \<^verbatim>\<open>NaN\<close> is false.\<close>

fun jlt :: "jsnum \<Rightarrow> jsnum \<Rightarrow> bool" where
  "jlt NaN y = False"
| "jlt (Fin a) NaN = False"
| "jlt PInf NaN = False"
| "jlt NInf NaN = False"
| "jlt (Fin a) (Fin b) = (a < b)"
| "jlt (Fin a) PInf = True"
| "jlt (Fin a) NInf = False"
| "jlt PInf y = False"
| "jlt NInf (Fin b) = True"
| "jlt NInf PInf = True"
| "jlt NInf NInf = False"

definition jgt :: "jsnum \<Rightarrow> jsnum \<Rightarrow> bool" where
  "jgt x y = jlt y x"

definition jle :: "jsnum \<Rightarrow> jsnum \<Rightarrow> bool" where
  "jle x y = (x \<noteq> NaN \<and> y \<noteq> NaN \<and> \<not> jlt y x)"

text \<open>\<^verbatim>\<open>Math.round\<close>: the nearest integer, a tie going up.\<close>

fun Math_round :: "jsnum \<Rightarrow> jsnum" where
  "Math_round (Fin a) = Fin (of_int \<lfloor>a + 1 / 2\<rfloor>)"
| "Math_round NaN = NaN"
| "Math_round PInf = PInf"
| "Math_round NInf = NInf"

text \<open>Truthiness of a number: zero and \<^verbatim>\<open>NaN\<close> are falsy.\<close>

fun truthy_num :: "jsnum \<Rightarrow> bool" where
  "truthy_num (Fin a) = (a \<noteq> 0)"
| "truthy_num NaN = False"
| "truthy_num PInf = True"
| "truthy_num NInf = True"

text \<open>The idiom \<^verbatim>\<open>(x || 0)\<close> on a number.\<close>

definition or_zero :: "jsnum \<Rightarrow> jsnum" where
  "or_zero x = (if truthy_num x then x else Fin 0)"

text \<open>
  A field read from a stored record: a number, a string, or \<^verbatim>\<open>null\<close>/\<^verbatim>\<open>undefined\<close>
  (the two behave alike wherever the route reads such a field).
\<close>

datatype jsval = JNum jsnum | JStr string | JNull

fun truthy :: "jsval \<Rightarrow> bool" where
  "truthy (JNum n) = truthy_num n"
| "truthy (JStr s) = (s \<noteq> [])"
| "truthy JNull = False"

subsection \<open>parseFloat\<close>

definition is_digit :: "char \<Rightarrow> bool" where
  "is_digit c = (48 \<le> (of_char c :: nat) \<and> (of_char c :: nat) \<le> 57)"

definition digit_val :: "char \<Rightarrow> nat" where
  "digit_val c = of_char c - 48"

fun digits_val :: "nat \<Rightarrow> string \<Rightarrow> nat" where
  "digits_val acc [] = acc"
| "digits_val acc (c # cs) = digits_val (10 * acc + digit_val c) cs"

definition is_space :: "char \<Rightarrow> bool" where
  "is_space c = ((of_char c :: nat) \<in> {9, 10, 11, 12, 13, 32})"

text \<open>The exponent part \<^verbatim>\<open>e[+-]ddd\<close>; without digits there is no exponent part.\<close>

definition exponent_factor :: "string \<Rightarrow> rat" where
  "exponent_factor s =
     (case s of
        [] \<Rightarrow> 1
      | c # t \<Rightarrow>
          if c = CHR ''e'' \<or> c = CHR ''E'' then
            (case t of
               [] \<Rightarrow> 1
             | d # u \<Rightarrow>
                 if d = CHR ''-'' then
                   (if takeWhile is_digit u = [] then 1
                    else 1 / 10 ^ digits_val 0 (takeWhile is_digit u))
                 else if d = CHR ''+'' then
                   (if takeWhile is_digit u = [] then 1
                    else 10 ^ digits_val 0 (takeWhile is_digit u))
                 else
                   (if takeWhile is_digit t = [] then 1
                    else 10 ^ digits_val 0 (takeWhile is_digit t)))
          else 1)"

text \<open>An unsigned decimal literal at the start of the string, or \<^verbatim>\<open>Infinity\<close>.\<close>

definition parse_unsigned :: "string \<Rightarrow> jsnum" where
  "parse_unsigned s =
     (let ip = takeWhile is_digit s;
          r1 = dropWhile is_digit s;
          fp = (case r1 of [] \<Rightarrow> [] | c # t \<Rightarrow> if c = CHR ''.'' then takeWhile is_digit t else []);
          r2 = (case r1 of [] \<Rightarrow> [] | c # t \<Rightarrow> if c = CHR ''.'' then dropWhile is_digit t else r1)
      in if ip = [] \<and> fp = [] then
           (if take 8 s = ''Infinity'' then PInf else NaN)
         else Fin (of_nat (digits_val 0 (ip @ fp)) / 10 ^ length fp * exponent_factor r2))"

definition parse_signed :: "string \<Rightarrow> jsnum" where
  "parse_signed s =
     (case s of
        [] \<Rightarrow> NaN
      | c # t \<Rightarrow>
          if c = CHR ''-'' then jneg (parse_unsigned t)
          else if c = CHR ''+'' then parse_unsigned t
          else parse_unsigned s)"

text \<open>
  \<^verbatim>\<open>parseFloat(v)\<close>: the argument is converted to a string, leading white space is skipped
  and the longest decimal literal at the start is read; \<^verbatim>\<open>NaN\<close> when there is none. A
  number is returned as it is: its printed form reads back as the same number. Strings are
  byte strings here, so white space is the ASCII white space.
\<close>

fun parseFloat :: "jsval \<Rightarrow> jsnum" where
  "parseFloat (JNum n) = n"
| "parseFloat (JStr s) = parse_signed (dropWhile is_space s)"
| "parseFloat JNull = NaN"

subsection \<open>Strings\<close>

text \<open>\<^verbatim>\<open>s < t\<close> on strings compares code units from the left.\<close>

fun str_lt :: "string \<Rightarrow> string \<Rightarrow> bool" where
  "str_lt [] [] = False"
| "str_lt [] (y # ys) = True"
| "str_lt (x # xs) [] = False"
| "str_lt (x # xs) (y # ys) =
     (if (of_char x :: nat) < of_char y then True
      else if (of_char y :: nat) < of_char x then False
      else str_lt xs ys)"

definition startsWith :: "string \<Rightarrow> string \<Rightarrow> bool" where
  "startsWith s p = (take (length p) s = p)"

text \<open>Truthiness of an optional string field: absent and empty are falsy.\<close>

fun truthy_str :: "string option \<Rightarrow> bool" where
  "truthy_str None = False"
| "truthy_str (Some s) = (s \<noteq> [])"

section \<open>The stored records\<close>

text \<open>
  The four collections the route reads and the settings row, with the fields the route
  uses. Identifiers and months are strings, compared with \<^verbatim>\<open>===\<close>; numeric fields are read
  through \<^verbatim>\<open>parseFloat\<close> and so may hold any value, except a payment's \<^verbatim>\<open>amount\<close>, which
  the route adds without parsing and which \<^verbatim>\<open>POST /api/payments\<close> stores as a number
  (\<^verbatim>\<open>parseFloat(req.body.amount)\<close>). An attendance record carries \<^verbatim>\<open>sundayMode\<close>, which the
  client writes and displays.
\<close>

record Employee =
  emp_id :: string
  emp_name :: string
  emp_salary :: jsval

record Attendance =
  att_employeeId :: string
  att_date :: string
  att_workedHours :: jsval
  att_slabMode :: bool
  att_sundayMode :: bool
  att_fare :: jsval

record Advance =
  adv_employeeId :: string
  adv_amount :: jsval
  adv_date :: "string option"
  adv_deductionMonth :: "string option"

record Payment =
  pay_employeeId :: string
  pay_salaryMonth :: string
  pay_amount :: jsnum
  pay_date :: string
  pay_screenshot :: "string option"

record Settings =
  standardHours :: jsval
  slabHours :: jsval

datatype Status = Settled | Partial | Unpaid

record PayrollStatement =
  employee :: Employee
  daysWorked :: nat
  salaryEarned :: jsnum
  fareTotal :: jsnum
  advancePaid :: jsnum
  previousBalance :: jsnum
  currentMonthNet :: jsnum
  finalPayable :: jsnum
  paidTotal :: jsnum
  remainingDue :: jsnum
  lastPaymentDate :: "string option"
  paymentProofs :: "string list"
  status :: Status

section \<open>The payroll computation of \<^verbatim>\<open>GET /api/payroll\<close>\<close>

subsection \<open>Settings\<close>

text \<open>
  \<^verbatim>\<open>parseFloat(settingsData.standardHours || 8.5)\<close> and
  \<^verbatim>\<open>parseFloat(settingsData.slabHours || 6)\<close>: a falsy setting (zero, \<^verbatim>\<open>NaN\<close>, the empty
  string, a missing value) is replaced by the default before it is parsed.
\<close>

definition stdHours_of :: "Settings \<Rightarrow> jsnum" where
  "stdHours_of settingsData =
     parseFloat (if truthy (standardHours settingsData) then standardHours settingsData
                 else JNum (Fin (17 / 2)))"

definition slabBase_of :: "Settings \<Rightarrow> jsnum" where
  "slabBase_of settingsData =
     parseFloat (if truthy (slabHours settingsData) then slabHours settingsData
                 else JNum (Fin 6))"

subsection \<open>One day's pay\<close>

text \<open>
  The body of the two attendance loops (lines 598-613 for the month, lines 631-646 for the
  history; the two bodies are the same text). \<^verbatim>\<open>sundayMode\<close> is not read.
\<close>

definition dailySalary :: "jsnum \<Rightarrow> jsnum \<Rightarrow> Employee \<Rightarrow> Attendance \<Rightarrow> jsnum" where
  "dailySalary stdHours slabBase emp att =
     (let workedHours = parseFloat (att_workedHours att);
          salary = parseFloat (emp_salary emp);
          normalRate = jdiv salary stdHours
      in if att_slabMode att then
           (if jgt workedHours stdHours then
              (let extraHours = jsub workedHours stdHours;
                   slabRate = jdiv salary slabBase
               in jadd (jmul normalRate stdHours) (jmul slabRate extraHours))
            else jmul normalRate workedHours)
         else jmul normalRate workedHours)"

text \<open>
  The pay shown per row by the client's attendance table (\<^verbatim>\<open>src/public/js/app.js\<close>, lines
  1765-1782), which does read \<^verbatim>\<open>sundayMode\<close>. The settings are the client's
  \<^verbatim>\<open>globalSettings\<close>, used as they are; \<^verbatim>\<open>workedHours\<close> is \<^verbatim>\<open>null\<close> when the field is falsy.
\<close>

definition computedPay :: "jsnum \<Rightarrow> jsnum \<Rightarrow> jsval \<Rightarrow> Attendance \<Rightarrow> jsnum" where
  "computedPay gStandardHours gSlabHours defaultSalary att =
     (let salary = parseFloat defaultSalary;
          normalRate = jdiv salary gStandardHours
      in if truthy (att_workedHours att) then
           (let workedHours = parseFloat (att_workedHours att)
            in if att_sundayMode att then salary
               else if att_slabMode att \<and> jgt workedHours gStandardHours then
                 (let extraHours = jsub workedHours gStandardHours;
                      slabRate = jdiv salary gSlabHours
                  in jadd (jmul normalRate gStandardHours) (jmul slabRate extraHours))
               else jmul normalRate workedHours)
         else Fin 0)"

subsection \<open>The month's records of one employee\<close>

definition empAtt :: "Attendance list \<Rightarrow> Employee \<Rightarrow> string \<Rightarrow> Attendance list" where
  "empAtt attendance emp month =
     filter (\<lambda>a. att_employeeId a = emp_id emp \<and> startsWith (att_date a) month) attendance"

text \<open>
  \<^verbatim>\<open>a.deductionMonth || (a.date ? a.date.substring(0, 7) : '')\<close>: the month an advance is
  deducted in.
\<close>

definition deduct :: "Advance \<Rightarrow> string" where
  "deduct a =
     (if truthy_str (adv_deductionMonth a) then the (adv_deductionMonth a)
      else if truthy_str (adv_date a) then take 7 (the (adv_date a))
      else [])"

definition empAdv :: "Advance list \<Rightarrow> Employee \<Rightarrow> string \<Rightarrow> Advance list" where
  "empAdv advances emp month =
     filter (\<lambda>a. if adv_employeeId a \<noteq> emp_id emp then False else deduct a = month) advances"

definition empPay :: "Payment list \<Rightarrow> Employee \<Rightarrow> string \<Rightarrow> Payment list" where
  "empPay payments emp month =
     filter (\<lambda>p. pay_employeeId p = emp_id emp \<and> pay_salaryMonth p = month) payments"

text \<open>\<^verbatim>\<open>reduce((sum, p) => sum + p.amount, 0)\<close>.\<close>

definition sumPayments :: "Payment list \<Rightarrow> jsnum" where
  "sumPayments ps = foldl (\<lambda>sum p. jadd sum (pay_amount p)) (Fin 0) ps"

text \<open>\<^verbatim>\<open>reduce((sum, adv) => sum + (parseFloat(adv.amount) || 0), 0)\<close>.\<close>

definition sumAdvances :: "Advance list \<Rightarrow> jsnum" where
  "sumAdvances as = foldl (\<lambda>sum adv. jadd sum (or_zero (parseFloat (adv_amount adv)))) (Fin 0) as"

text \<open>The month's loop: \<^verbatim>\<open>totalSalary += dailySalary\<close> and \<^verbatim>\<open>totalFare += (parseFloat(att.fare) || 0)\<close>.\<close>

definition totalSalary :: "jsnum \<Rightarrow> jsnum \<Rightarrow> Employee \<Rightarrow> Attendance list \<Rightarrow> jsnum" where
  "totalSalary stdHours slabBase emp atts =
     foldl (\<lambda>acc att. jadd acc (dailySalary stdHours slabBase emp att)) (Fin 0) atts"

definition totalFare :: "Attendance list \<Rightarrow> jsnum" where
  "totalFare atts = foldl (\<lambda>acc att. jadd acc (or_zero (parseFloat (att_fare att)))) (Fin 0) atts"

subsection \<open>The history before the month\<close>

definition pastAtt :: "Attendance list \<Rightarrow> Employee \<Rightarrow> string \<Rightarrow> Attendance list" where
  "pastAtt attendance emp month =
     filter (\<lambda>a. att_employeeId a = emp_id emp \<and> str_lt (att_date a) (month @ ''-01'')) attendance"

text \<open>The history loop adds the day's pay and then the fare to the one accumulator.\<close>

definition pastEarnings :: "jsnum \<Rightarrow> jsnum \<Rightarrow> Employee \<Rightarrow> Attendance list \<Rightarrow> jsnum" where
  "pastEarnings stdHours slabBase emp atts =
     foldl (\<lambda>acc att. jadd (jadd acc (dailySalary stdHours slabBase emp att))
                            (or_zero (parseFloat (att_fare att)))) (Fin 0) atts"

definition pastAdv :: "Advance list \<Rightarrow> Employee \<Rightarrow> string \<Rightarrow> Advance list" where
  "pastAdv advances emp month =
     filter (\<lambda>a. if adv_employeeId a \<noteq> emp_id emp then False else str_lt (deduct a) month) advances"

definition pastPay :: "Payment list \<Rightarrow> Employee \<Rightarrow> string \<Rightarrow> Payment list" where
  "pastPay payments emp month =
     filter (\<lambda>p. pay_employeeId p = emp_id emp \<and> str_lt (pay_salaryMonth p) month) payments"

definition computePreviousBalance ::
  "jsnum \<Rightarrow> jsnum \<Rightarrow> Attendance list \<Rightarrow> Advance list \<Rightarrow> Payment list \<Rightarrow> string \<Rightarrow> Employee \<Rightarrow> jsnum"
where
  "computePreviousBalance stdHours slabBase attendance advances payments month emp =
     (let pastDeductions = sumAdvances (pastAdv advances emp month);
          pastPaymentsTotal = sumPayments (pastPay payments emp month)
      in Math_round (jsub (jsub (pastEarnings stdHours slabBase emp (pastAtt attendance emp month))
                                pastDeductions) pastPaymentsTotal))"

subsection \<open>Sorting the month's payments\<close>

text \<open>
  \<^verbatim>\<open>empPay.sort((a, b) => new Date(b.date) - new Date(a.date))\<close>. The time value of
  \<^verbatim>\<open>new Date(s)\<close> depends on the engine's date parser and is a parameter \<open>tv\<close> of the model
  (\<^verbatim>\<open>NaN\<close> for a string that is no date). \<^verbatim>\<open>Array.prototype.sort\<close> is stable: an
  element moves behind a later one only when the comparator is positive.
\<close>

fun insort_cmp :: "('a \<Rightarrow> 'a \<Rightarrow> jsnum) \<Rightarrow> 'a \<Rightarrow> 'a list \<Rightarrow> 'a list" where
  "insort_cmp cmp x [] = [x]"
| "insort_cmp cmp x (y # ys) =
     (if jgt (cmp x y) (Fin 0) then y # insort_cmp cmp x ys else x # y # ys)"

definition array_sort :: "('a \<Rightarrow> 'a \<Rightarrow> jsnum) \<Rightarrow> 'a list \<Rightarrow> 'a list" where
  "array_sort cmp xs = foldr (insort_cmp cmp) xs []"

definition byDateDesc :: "(string \<Rightarrow> jsnum) \<Rightarrow> Payment \<Rightarrow> Payment \<Rightarrow> jsnum" where
  "byDateDesc tv a b = jsub (tv (pay_date b)) (tv (pay_date a))"

subsection \<open>The statement of one employee\<close>

text \<open>The callback of \<^verbatim>\<open>employees.map\<close> (lines 570-685).\<close>

definition computeStatement ::
  "(string \<Rightarrow> jsnum) \<Rightarrow> jsnum \<Rightarrow> jsnum \<Rightarrow> Attendance list \<Rightarrow> Advance list \<Rightarrow> Payment list \<Rightarrow>
   string \<Rightarrow> Employee \<Rightarrow> PayrollStatement"
where
  "computeStatement tv stdHours slabBase attendance advances payments month emp =
     (let atts = empAtt attendance emp month;
          advs = empAdv advances emp month;
          pays = empPay payments emp month;
          totalPaid = sumPayments pays;
          sorted = array_sort (byDateDesc tv) pays;
          totSalary = totalSalary stdHours slabBase emp atts;
          totFare = totalFare atts;
          totalAdvance = sumAdvances advs;
          prevBalance = computePreviousBalance stdHours slabBase attendance advances payments month emp;
          monthNet = jsub (jadd totSalary totFare) totalAdvance;
          netPayable = Math_round (jadd monthNet prevBalance);
          due = jsub netPayable totalPaid
      in \<lparr> employee = emp,
           daysWorked = length atts,
           salaryEarned = Math_round totSalary,
           fareTotal = totFare,
           advancePaid = totalAdvance,
           previousBalance = prevBalance,
           currentMonthNet = Math_round monthNet,
           finalPayable = netPayable,
           paidTotal = totalPaid,
           remainingDue = due,
           lastPaymentDate = (case sorted of [] \<Rightarrow> None | p # ps \<Rightarrow> Some (pay_date p)),
           paymentProofs = map (\<lambda>p. the (pay_screenshot p))
                               (filter (\<lambda>p. truthy_str (pay_screenshot p)) sorted),
           status = (if jle due (Fin 0) then Settled
                     else if jgt totalPaid (Fin 0) then Partial else Unpaid) \<rparr>)"

subsection \<open>The callback with the arrays in a store\<close>

text \<open>
  The one operation of the callback that changes an array in place is \<^verbatim>\<open>empPay.sort\<close>; no
  statement of the callback assigns to a field of a record. To state what the sort can and
  cannot change, the arrays of payments live in a store of cells: \<^verbatim>\<open>filter\<close> makes a new
  array in a fresh cell, \<^verbatim>\<open>sort\<close> overwrites the cell it is called on. The attendance,
  advance and employee arrays are only read (\<^verbatim>\<open>filter\<close>, \<^verbatim>\<open>forEach\<close>, \<^verbatim>\<open>reduce\<close>,
  \<^verbatim>\<open>map\<close>) and stay values. \<open>statement_run\<close> is the callback of lines 570-685 statement
  by statement, \<open>map_run\<close> is \<^verbatim>\<open>employees.map\<close> calling it from left to right.
\<close>

type_synonym addr = nat

record ArrayStore =
  cells :: "addr \<Rightarrow> Payment list"
  lim :: addr

text \<open>\<^verbatim>\<open>Array.prototype.filter\<close>: the result is a new array.\<close>

definition array_filter :: "(Payment \<Rightarrow> bool) \<Rightarrow> addr \<Rightarrow> ArrayStore \<Rightarrow> addr \<times> ArrayStore" where
  "array_filter P r h =
     (lim h, \<lparr> cells = (cells h)(lim h := filter P (cells h r)), lim = Suc (lim h) \<rparr>)"

text \<open>\<^verbatim>\<open>Array.prototype.sort\<close>: the array is sorted in place.\<close>

definition array_sort_in_place ::
  "(Payment \<Rightarrow> Payment \<Rightarrow> jsnum) \<Rightarrow> addr \<Rightarrow> ArrayStore \<Rightarrow> ArrayStore" where
  "array_sort_in_place cmp r h = h\<lparr> cells := (cells h)(r := array_sort cmp (cells h r)) \<rparr>"

definition statement_run ::
  "(string \<Rightarrow> jsnum) \<Rightarrow> jsnum \<Rightarrow> jsnum \<Rightarrow> Attendance list \<Rightarrow> Advance list \<Rightarrow> addr \<Rightarrow>
   string \<Rightarrow> Employee \<Rightarrow> ArrayStore \<Rightarrow> PayrollStatement \<times> ArrayStore"
where
  "statement_run tv stdHours slabBase attendance advances paymentsRef month emp h =
     (let atts = empAtt attendance emp month;
          advs = empAdv advances emp month;
          (empPayRef, h1) =
             array_filter (\<lambda>p. pay_employeeId p = emp_id emp \<and> pay_salaryMonth p = month) paymentsRef h;
          totalPaid = sumPayments (cells h1 empPayRef);
          h2 = array_sort_in_place (byDateDesc tv) empPayRef h1;
          lastDate = (case cells h2 empPayRef of [] \<Rightarrow> None | p # ps \<Rightarrow> Some (pay_date p));
          (proofsRef, h3) = array_filter (\<lambda>p. truthy_str (pay_screenshot p)) empPayRef h2;
          proofs = map (\<lambda>p. the (pay_screenshot p)) (cells h3 proofsRef);
          totSalary = totalSalary stdHours slabBase emp atts;
          totFare = totalFare atts;
          totalAdvance = sumAdvances advs;
          earnings = pastEarnings stdHours slabBase emp (pastAtt attendance emp month);
          pastDeductions = sumAdvances (pastAdv advances emp month);
          (pastPayRef, h4) =
             array_filter (\<lambda>p. pay_employeeId p = emp_id emp \<and> str_lt (pay_salaryMonth p) month) paymentsRef h3;
          pastPaymentsTotal = sumPayments (cells h4 pastPayRef);
          prevBalance = Math_round (jsub (jsub earnings pastDeductions) pastPaymentsTotal);
          monthNet = jsub (jadd totSalary totFare) totalAdvance;
          netPayable = Math_round (jadd monthNet prevBalance);
          due = jsub netPayable totalPaid
      in (\<lparr> employee = emp,
            daysWorked = length atts,
            salaryEarned = Math_round totSalary,
            fareTotal = totFare,
            advancePaid = totalAdvance,
            previousBalance = prevBalance,
            currentMonthNet = Math_round monthNet,
            finalPayable = netPayable,
            paidTotal = totalPaid,
            remainingDue = due,
            lastPaymentDate = lastDate,
            paymentProofs = proofs,
            status = (if jle due (Fin 0) then Settled
                      else if jgt totalPaid (Fin 0) then Partial else Unpaid) \<rparr>, h4))"

fun map_run ::
  "(Employee \<Rightarrow> ArrayStore \<Rightarrow> PayrollStatement \<times> ArrayStore) \<Rightarrow> Employee list \<Rightarrow> ArrayStore \<Rightarrow>
   PayrollStatement list \<times> ArrayStore"
where
  "map_run f [] h = ([], h)"
| "map_run f (emp # emps) h =
     (case f emp h of (st, h1) \<Rightarrow> (case map_run f emps h1 of (sts, h2) \<Rightarrow> (st # sts, h2)))"

definition payroll_run ::
  "(string \<Rightarrow> jsnum) \<Rightarrow> Employee list \<Rightarrow> Attendance list \<Rightarrow> Advance list \<Rightarrow> addr \<Rightarrow> Settings \<Rightarrow>
   string \<Rightarrow> ArrayStore \<Rightarrow> PayrollStatement list \<times> ArrayStore"
where
  "payroll_run tv emps atts advs paymentsRef settingsData month h =
     map_run (statement_run tv (stdHours_of settingsData) (slabBase_of settingsData)
                atts advs paymentsRef month) emps h"

subsection \<open>The route\<close>

text \<open>
  The store the route reads: what \<^verbatim>\<open>getAllEmployees\<close>, \<^verbatim>\<open>getAllAttendance\<close>,
  \<^verbatim>\<open>getAllAdvances\<close>, \<^verbatim>\<open>getAllPayments\<close> and \<^verbatim>\<open>getSettings\<close> return.
\<close>

record Store =
  employees :: "Employee list"
  attendance :: "Attendance list"
  advances :: "Advance list"
  payments :: "Payment list"
  settings :: Settings

datatype HttpError = BadRequest string

definition computePayroll ::
  "(string \<Rightarrow> jsnum) \<Rightarrow> Employee list \<Rightarrow> Attendance list \<Rightarrow> Advance list \<Rightarrow> Payment list \<Rightarrow>
   Settings \<Rightarrow> string \<Rightarrow> PayrollStatement list"
where
  "computePayroll tv emps atts advs pays settingsData month =
     map (computeStatement tv (stdHours_of settingsData) (slabBase_of settingsData)
            atts advs pays month) emps"

text \<open>\<^verbatim>\<open>if (!month) return res.status(400)\<close>, then the computation.\<close>

definition payroll :: "(string \<Rightarrow> jsnum) \<Rightarrow> Store \<Rightarrow> string \<Rightarrow> HttpError + PayrollStatement list" where
  "payroll tv db month =
     (if month = [] then Inl (BadRequest ''Month required'')
      else Inr (computePayroll tv (employees db) (attendance db) (advances db) (payments db)
                  (settings db) month))"

section \<open>Writing the settings\<close>

text \<open>
  \<^verbatim>\<open>POST /api/settings\<close> (\<^verbatim>\<open>src/server.js\<close>, lines 311-318) hands the request body to
  \<^verbatim>\<open>updateSettings\<close> (the Supabase service, lines 217-223), which updates row 1 of the
  \<^verbatim>\<open>settings\<close> table and returns the updated row; an error of the store is thrown and
  answered with status 500. Neither function looks at the values. The table is the optional
  row 1 and keeps the two values it is given; the one store error modelled is the missing row.
\<close>

datatype DbError = NoSettingsRow

datatype SettingsResponse = Json200 Settings | Status500 DbError

definition updateSettings :: "Settings option \<Rightarrow> Settings \<Rightarrow> (DbError + Settings) \<times> Settings option" where
  "updateSettings row settings' =
     (case row of
        None \<Rightarrow> (Inl NoSettingsRow, None)
      | Some r \<Rightarrow> (Inr settings', Some settings'))"

definition post_settings :: "Settings option \<Rightarrow> Settings \<Rightarrow> SettingsResponse \<times> Settings option" where
  "post_settings row body =
     (case updateSettings row body of
        (Inl e, row') \<Rightarrow> (Status500 e, row')
      | (Inr updated, row') \<Rightarrow> (Json200 updated, row'))"

section \<open>Months and days as the data model writes them\<close>

text \<open>
  The data model writes a month as \<^verbatim>\<open>YYYY-MM\<close> and a day as \<^verbatim>\<open>YYYY-MM-DD\<close>. The route
  itself never parses these strings: it compares them as strings. The predicates below
  state the data model's format, and \<open>nextMonth\<close> is the calendar successor of a month in
  that format.
\<close>

definition digit_char :: "nat \<Rightarrow> char" where
  "digit_char d = char_of (48 + d)"

text \<open>The last \<open>n\<close> decimal digits of \<open>k\<close>.\<close>

fun pad :: "nat \<Rightarrow> nat \<Rightarrow> string" where
  "pad 0 k = []"
| "pad (Suc n) k = pad n (k div 10) @ [digit_char (k mod 10)]"

definition monthStr :: "nat \<Rightarrow> nat \<Rightarrow> string" where
  "monthStr y m = pad 4 y @ ''-'' @ pad 2 m"

definition yearOf :: "string \<Rightarrow> nat" where
  "yearOf s = digits_val 0 (take 4 s)"

definition monthOf :: "string \<Rightarrow> nat" where
  "monthOf s = digits_val 0 (take 2 (drop 5 s))"

definition dayOf :: "string \<Rightarrow> nat" where
  "dayOf s = digits_val 0 (take 2 (drop 8 s))"

definition wf_month :: "string \<Rightarrow> bool" where
  "wf_month s =
     (length s = 7 \<and> list_all is_digit (take 4 s) \<and> s ! 4 = CHR ''-'' \<and>
      list_all is_digit (drop 5 s) \<and> 1 \<le> monthOf s \<and> monthOf s \<le> 12)"

definition wf_date :: "string \<Rightarrow> bool" where
  "wf_date s =
     (length s = 10 \<and> wf_month (take 7 s) \<and> s ! 7 = CHR ''-'' \<and>
      list_all is_digit (drop 8 s) \<and> 1 \<le> dayOf s \<and> dayOf s \<le> 31)"

definition nextMonth :: "string \<Rightarrow> string" where
  "nextMonth s =
     (if monthOf s = 12 then monthStr (yearOf s + 1) 1 else monthStr (yearOf s) (monthOf s + 1))"

section \<open>Example data\<close>

definition emp800 :: Employee where
  "emp800 = \<lparr> emp_id = ''e1'', emp_name = ''Asha'', emp_salary = JNum (Fin 800) \<rparr>"

definition emp850 :: Employee where
  "emp850 = \<lparr> emp_id = ''e2'', emp_name = ''Ravi'', emp_salary = JNum (Fin 850) \<rparr>"

definition attSunday :: Attendance where
  "attSunday = \<lparr> att_employeeId = ''e1'', att_date = ''2024-01-07'', att_workedHours = JNum (Fin 2),
                 att_slabMode = True, att_sundayMode = True, att_fare = JNum (Fin 0) \<rparr>"

definition att10 :: Attendance where
  "att10 = \<lparr> att_employeeId = ''e2'', att_date = ''2024-01-08'', att_workedHours = JStr ''10.00'',
             att_slabMode = True, att_sundayMode = False, att_fare = JNum (Fin 40) \<rparr>"

definition adv300 :: Advance where
  "adv300 = \<lparr> adv_employeeId = ''e2'', adv_amount = JNum (Fin 300), adv_date = Some ''2024-01-10'',
              adv_deductionMonth = None \<rparr>"

definition pay500 :: Payment where
  "pay500 = \<lparr> pay_employeeId = ''e2'', pay_salaryMonth = ''2024-01'', pay_amount = Fin 500,
              pay_date = ''2024-02-01'', pay_screenshot = None \<rparr>"

definition advMarch :: Advance where
  "advMarch = \<lparr> adv_employeeId = ''e2'', adv_amount = JNum (Fin 1000), adv_date = Some ''2024-01-15'',
                adv_deductionMonth = Some ''2024-03'' \<rparr>"

definition attBadHours :: Attendance where
  "attBadHours = \<lparr> att_employeeId = ''e2'', att_date = ''2024-01-09'', att_workedHours = JStr ''abc'',
                   att_slabMode = False, att_sundayMode = False, att_fare = JStr ''abc'' \<rparr>"

definition zeroSettings :: Settings where
  "zeroSettings = \<lparr> standardHours = JNum (Fin 0), slabHours = JNum (Fin 0) \<rparr>"

definition att85 :: Attendance where
  "att85 = \<lparr> att_employeeId = ''e2'', att_date = ''2024-01-09'', att_workedHours = JNum (Fin (17 / 2)),
             att_slabMode = False, att_sundayMode = False, att_fare = JNum (Fin 0) \<rparr>"

definition pay200 :: Payment where
  "pay200 = \<lparr> pay_employeeId = ''e2'', pay_salaryMonth = ''2024-01'', pay_amount = Fin 200,
              pay_date = ''2024-02-05'', pay_screenshot = Some ''proof-200.png'' \<rparr>"

definition exampleDates :: "string \<Rightarrow> jsnum" where
  "exampleDates s =
     (if s = ''2024-02-01'' then Fin 1706745600000
      else if s = ''2024-02-05'' then Fin 1707091200000
      else NaN)"

definition exampleArrays :: ArrayStore where
  "exampleArrays = \<lparr> cells = (\<lambda>a. if a = 0 then [pay500, pay200] else []), lim = 1 \<rparr>"

text \<open>A date parser that recognises no string: every time value is \<^verbatim>\<open>NaN\<close>.\<close>

definition noDates :: "string \<Rightarrow> jsnum" where
  "noDates s = NaN"

definition defaultSettings :: Settings where
  "defaultSettings = \<lparr> standardHours = JNum (Fin (17 / 2)), slabHours = JNum (Fin 6) \<rparr>"

definition exampleStore :: Store where
  "exampleStore = \<lparr> employees = [emp800, emp850], attendance = [attSunday, att10],
                      advances = [adv300], payments = [pay500], settings = defaultSettings \<rparr>"

section \<open>Evaluation lemmas\<close>

lemmas parse_defs = parse_signed_def parse_unsigned_def exponent_factor_def is_space_def
  is_digit_def digit_val_def

lemma floor_rat_numeral [simp]:
  "\<lfloor>(numeral a :: rat) / numeral b\<rfloor> = numeral a div numeral b"
  using floor_divide_of_int_eq [of "numeral a" "numeral b", where ?'a = rat] by simp

lemma floor_rat_neg_numeral [simp]:
  "\<lfloor>- ((numeral a :: rat) / numeral b)\<rfloor> = - numeral a div numeral b"
  using floor_divide_of_int_eq [of "- numeral a" "numeral b", where ?'a = rat] by simp

lemma floor_rat_one_numeral [simp]: "\<lfloor>(1 :: rat) / numeral b\<rfloor> = 1 div numeral b"
  using floor_divide_of_int_eq [of 1 "numeral b", where ?'a = rat] by simp

lemma floor_rat_neg_one_numeral [simp]:
  "\<lfloor>- ((1 :: rat) / numeral b)\<rfloor> = - 1 div numeral b"
  using floor_divide_of_int_eq [of "- 1" "numeral b", where ?'a = rat] by simp

lemma att10_hours: "parseFloat (att_workedHours att10) = Fin 10"
  by (simp add: att10_def parse_defs)

lemma sums_empty [simp]:
  "sumPayments [] = Fin 0" "sumAdvances [] = Fin 0" "totalFare [] = Fin 0"
  "totalSalary stdHours slabBase emp [] = Fin 0" "pastEarnings stdHours slabBase emp [] = Fin 0"
  by (simp_all add: sumPayments_def sumAdvances_def totalFare_def totalSalary_def pastEarnings_def)

lemma array_sort_Nil [simp]: "array_sort cmp [] = []"
  by (simp add: array_sort_def)

section \<open>Sunday mode\<close>

text \<open>
  C1. The claim: a record with \<^verbatim>\<open>sundayMode = true\<close> is paid the full daily salary whatever
  the worked hours, before slab mode is looked at; with \<^verbatim>\<open>sundayMode=true, slabMode=true,
  workedHours=2, salary=800\<close> the day's pay is 800. The payroll route does not read
  \<^verbatim>\<open>sundayMode\<close>: at that input (default settings 8.5 and 6) the day is paid
  \<open>800 / 8.5 * 2 = 3200 / 17\<close> and the month's \<^verbatim>\<open>salaryEarned\<close> is 188. The client's
  attendance table, on the same record, shows 800.
\<close>

theorem sunday_mode_not_read:
  "dailySalary (Fin (17 / 2)) (Fin 6) emp800 attSunday = Fin (3200 / 17)
   \<and> salaryEarned (computeStatement noDates (Fin (17 / 2)) (Fin 6) [attSunday] [] [] ''2024-01'' emp800)
       = Fin 188
   \<and> computedPay (Fin (17 / 2)) (Fin 6) (emp_salary emp800) attSunday = Fin 800"
proof (intro conjI)
  show "dailySalary (Fin (17 / 2)) (Fin 6) emp800 attSunday = Fin (3200 / 17)"
    by (simp add: dailySalary_def emp800_def attSunday_def jgt_def)
  show "salaryEarned (computeStatement noDates (Fin (17 / 2)) (Fin 6) [attSunday] [] [] ''2024-01'' emp800)
          = Fin 188"
    by (simp add: computeStatement_def Let_def empAtt_def startsWith_def totalSalary_def
        dailySalary_def emp800_def attSunday_def jgt_def)
  show "computedPay (Fin (17 / 2)) (Fin 6) (emp_salary emp800) attSunday = Fin 800"
    by (simp add: computedPay_def emp800_def attSunday_def)
qed

section \<open>An employee without records\<close>

lemma filter_none: "\<forall>x \<in> set xs. \<not> P x \<Longrightarrow> filter P xs = []"
  by (induction xs) auto

text \<open>
  C2, as the code has it. For an employee to whom no attendance, advance or payment record
  belongs, and for every month, the statement has \<^verbatim>\<open>previousBalance = 0\<close>,
  \<^verbatim>\<open>finalPayable = 0\<close>, \<^verbatim>\<open>paidTotal = 0\<close>, \<^verbatim>\<open>remainingDue = 0\<close> and, since the status test
  is \<^verbatim>\<open>remainingDue <= 0\<close>, the status \<^verbatim>\<open>Settled\<close>.
\<close>

theorem no_records_statement:
  assumes "\<forall>a \<in> set atts. att_employeeId a \<noteq> emp_id emp"
      and "\<forall>a \<in> set advs. adv_employeeId a \<noteq> emp_id emp"
      and "\<forall>p \<in> set pays. pay_employeeId p \<noteq> emp_id emp"
  shows "previousBalance (computeStatement tv stdHours slabBase atts advs pays month emp) = Fin 0
       \<and> finalPayable (computeStatement tv stdHours slabBase atts advs pays month emp) = Fin 0
       \<and> paidTotal (computeStatement tv stdHours slabBase atts advs pays month emp) = Fin 0
       \<and> remainingDue (computeStatement tv stdHours slabBase atts advs pays month emp) = Fin 0
       \<and> status (computeStatement tv stdHours slabBase atts advs pays month emp) = Settled"
proof -
  have att: "empAtt atts emp month = []" "pastAtt atts emp month = []"
    using assms(1) by (simp_all add: empAtt_def pastAtt_def filter_none)
  have adv: "empAdv advs emp month = []" "pastAdv advs emp month = []"
    using assms(2) by (simp_all add: empAdv_def pastAdv_def filter_none)
  have pay: "empPay pays emp month = []" "pastPay pays emp month = []"
    using assms(3) by (simp_all add: empPay_def pastPay_def filter_none)
  have prev: "computePreviousBalance stdHours slabBase atts advs pays month emp = Fin 0"
    by (simp add: computePreviousBalance_def att adv pay jsub_def)
  show ?thesis
    by (simp add: computeStatement_def Let_def att adv pay prev jsub_def jle_def)
qed

theorem no_records_statement_witness:
  "previousBalance (computeStatement noDates (Fin (17 / 2)) (Fin 6) [att10] [adv300] [pay500] ''2024-02'' emp800) = Fin 0
   \<and> finalPayable (computeStatement noDates (Fin (17 / 2)) (Fin 6) [att10] [adv300] [pay500] ''2024-02'' emp800) = Fin 0
   \<and> status (computeStatement noDates (Fin (17 / 2)) (Fin 6) [att10] [adv300] [pay500] ''2024-02'' emp800) = Settled"
proof -
  have a: "\<forall>a \<in> set [att10]. att_employeeId a \<noteq> emp_id emp800"
    by (simp add: att10_def emp800_def)
  have b: "\<forall>a \<in> set [adv300]. adv_employeeId a \<noteq> emp_id emp800"
    by (simp add: adv300_def emp800_def)
  have c: "\<forall>p \<in> set [pay500]. pay_employeeId p \<noteq> emp_id emp800"
    by (simp add: pay500_def emp800_def)
  show ?thesis
    using no_records_statement [OF a b c, of noDates "Fin (17 / 2)" "Fin 6" "''2024-02''"] by simp
qed

text \<open>
  C2 as stated asks for the status \<^verbatim>\<open>Unpaid\<close>; the statement of an employee without
  records, in a store that holds another employee's records, has the status \<^verbatim>\<open>Settled\<close>.
\<close>

theorem no_records_unpaid_counterexample:
  "status (computeStatement noDates (Fin (17 / 2)) (Fin 6) [att10] [adv300] [pay500] ''2024-01'' emp800)
     \<noteq> Unpaid"
  by (simp add: computeStatement_def Let_def empAtt_def empAdv_def empPay_def
      computePreviousBalance_def pastAtt_def pastAdv_def pastPay_def
      att10_def adv300_def pay500_def emp800_def jsub_def jle_def)

section \<open>The slab split\<close>

text \<open>
  C5. For a record with \<^verbatim>\<open>slabMode\<close> set and \<^verbatim>\<open>workedHours > stdHours\<close>, the day's pay is
  \<open>(salary / stdHours) * stdHours + (salary / slabBase) * (workedHours - stdHours)\<close>, in
  JavaScript's arithmetic. With 8.5 standard hours, 6 slab hours, a salary of 850 and 10
  worked hours the two parts are 850 and 212.5 and the day is paid 1062.5.
\<close>

theorem slab_split:
  assumes "att_slabMode att"
      and "jgt (parseFloat (att_workedHours att)) stdHours"
  shows "dailySalary stdHours slabBase emp att =
           jadd (jmul (jdiv (parseFloat (emp_salary emp)) stdHours) stdHours)
                (jmul (jdiv (parseFloat (emp_salary emp)) slabBase)
                      (jsub (parseFloat (att_workedHours att)) stdHours))
         \<and> jmul (jdiv (Fin 850) (Fin (17 / 2))) (Fin (17 / 2)) = Fin 850
         \<and> jmul (jdiv (Fin 850) (Fin 6)) (jsub (Fin 10) (Fin (17 / 2))) = Fin (425 / 2)
         \<and> dailySalary (Fin (17 / 2)) (Fin 6) emp850 att10 = Fin (2125 / 2)"
proof -
  have general: "dailySalary stdHours slabBase emp att =
           jadd (jmul (jdiv (parseFloat (emp_salary emp)) stdHours) stdHours)
                (jmul (jdiv (parseFloat (emp_salary emp)) slabBase)
                      (jsub (parseFloat (att_workedHours att)) stdHours))"
    using assms by (simp add: dailySalary_def Let_def)
  have base: "jmul (jdiv (Fin 850) (Fin (17 / 2))) (Fin (17 / 2)) = Fin 850"
    by simp
  have ot: "jmul (jdiv (Fin 850) (Fin 6)) (jsub (Fin 10) (Fin (17 / 2))) = Fin (425 / 2)"
    by (simp add: jsub_def)
  have day: "dailySalary (Fin (17 / 2)) (Fin 6) emp850 att10 = Fin (2125 / 2)"
    using att10_hours by (simp add: dailySalary_def Let_def jgt_def jsub_def emp850_def att10_def)
  from general base ot day show ?thesis by simp
qed

theorem slab_split_witness:
  "att_slabMode att10 \<and> jgt (parseFloat (att_workedHours att10)) (Fin (17 / 2)) \<and>
   dailySalary (Fin (17 / 2)) (Fin 6) emp850 att10 = jadd (Fin 850) (Fin (425 / 2))"
proof -
  have a: "att_slabMode att10" by (simp add: att10_def)
  have b: "jgt (parseFloat (att_workedHours att10)) (Fin (17 / 2))"
    by (simp add: att10_hours jgt_def)
  have c: "parseFloat (emp_salary emp850) = Fin 850" by (simp add: emp850_def)
  show ?thesis
    using a b slab_split [OF a b, of "Fin 6" emp850] by (simp add: att10_hours c jsub_def)
qed

section \<open>The status of a statement\<close>

text \<open>
  C8. In every statement the status is \<^verbatim>\<open>Settled\<close> exactly when \<^verbatim>\<open>remainingDue <= 0\<close>,
  otherwise \<^verbatim>\<open>Partial\<close> exactly when \<^verbatim>\<open>paidTotal > 0\<close>, otherwise \<^verbatim>\<open>Unpaid\<close>; and
  \<^verbatim>\<open>remainingDue = finalPayable - paidTotal\<close>,
  \<^verbatim>\<open>finalPayable = Math.round(currentMonthNet + previousBalance)\<close> with the unrounded
  \<^verbatim>\<open>currentMonthNet = totalSalary + totalFare - totalAdvance\<close>.
\<close>

theorem status_rule:
  "(let st = computeStatement tv stdHours slabBase atts advs pays month emp;
        monthNet = jsub (jadd (totalSalary stdHours slabBase emp (empAtt atts emp month))
                              (totalFare (empAtt atts emp month)))
                        (sumAdvances (empAdv advs emp month))
    in (status st = Settled \<longleftrightarrow> jle (remainingDue st) (Fin 0))
     \<and> (status st = Partial \<longleftrightarrow> \<not> jle (remainingDue st) (Fin 0) \<and> jgt (paidTotal st) (Fin 0))
     \<and> (status st = Unpaid \<longleftrightarrow> \<not> jle (remainingDue st) (Fin 0) \<and> \<not> jgt (paidTotal st) (Fin 0))
     \<and> remainingDue st = jsub (finalPayable st) (paidTotal st)
     \<and> finalPayable st = Math_round (jadd monthNet (previousBalance st)))"
  by (simp add: computeStatement_def Let_def)

theorem status_rule_witness:
  "status (computeStatement noDates (Fin (17 / 2)) (Fin 6) [attSunday, att10] [adv300] [pay500] ''2024-01'' emp850)
     = Partial
   \<and> \<not> jle (remainingDue (computeStatement noDates (Fin (17 / 2)) (Fin 6) [attSunday, att10] [adv300] [pay500] ''2024-01'' emp850)) (Fin 0)
   \<and> jgt (paidTotal (computeStatement noDates (Fin (17 / 2)) (Fin 6) [attSunday, att10] [adv300] [pay500] ''2024-01'' emp850)) (Fin 0)
   \<and> finalPayable (computeStatement noDates (Fin (17 / 2)) (Fin 6) [attSunday, att10] [adv300] [pay500] ''2024-01'' emp850)
       = Fin 803
   \<and> remainingDue (computeStatement noDates (Fin (17 / 2)) (Fin 6) [attSunday, att10] [adv300] [pay500] ''2024-01'' emp850)
       = Fin 303"
proof -
  have paid: "paidTotal (computeStatement noDates (Fin (17 / 2)) (Fin 6) [attSunday, att10] [adv300] [pay500] ''2024-01'' emp850)
                = Fin 500"
    by (simp add: computeStatement_def Let_def empPay_def sumPayments_def pay500_def emp850_def)
  have final: "finalPayable (computeStatement noDates (Fin (17 / 2)) (Fin 6) [attSunday, att10] [adv300] [pay500] ''2024-01'' emp850)
                = Fin 803"
    using att10_hours
    by (simp add: computeStatement_def Let_def empAtt_def empAdv_def empPay_def startsWith_def
        deduct_def totalSalary_def totalFare_def sumAdvances_def sumPayments_def or_zero_def
        computePreviousBalance_def pastAtt_def pastAdv_def pastPay_def pastEarnings_def
        dailySalary_def jgt_def jsub_def
        attSunday_def att10_def adv300_def pay500_def emp850_def)
  show ?thesis
    using status_rule [of noDates "Fin (17 / 2)" "Fin 6" "[attSunday, att10]" "[adv300]" "[pay500]"
        "''2024-01''" emp850]
    by (simp add: Let_def paid final jsub_def jle_def jgt_def)
qed

section \<open>One statement per employee, in the order of the employees\<close>

text \<open>
  C10. The list of statements is as long as the list of employees and its \<open>i\<close>-th
  statement carries the \<open>i\<close>-th employee; the route returns this list whenever a month is
  given.
\<close>

theorem payroll_order:
  "length (computePayroll tv emps atts advs pays st month) = length emps
   \<and> (\<forall>i < length emps. employee (computePayroll tv emps atts advs pays st month ! i) = emps ! i)
   \<and> (month \<noteq> [] \<longrightarrow>
        payroll tv db month =
          Inr (computePayroll tv (employees db) (attendance db) (advances db) (payments db)
                 (settings db) month))"
  by (simp add: computePayroll_def payroll_def computeStatement_def Let_def)

theorem payroll_order_witness:
  "length (computePayroll noDates [emp800, emp850] [attSunday, att10] [adv300] [pay500]
             defaultSettings ''2024-01'') = 2
   \<and> employee (computePayroll noDates [emp800, emp850] [attSunday, att10] [adv300] [pay500]
                  defaultSettings ''2024-01'' ! 1) = emp850
   \<and> payroll noDates exampleStore ''2024-01'' =
       Inr (computePayroll noDates [emp800, emp850] [attSunday, att10] [adv300] [pay500]
              defaultSettings ''2024-01'')"
  using payroll_order [of noDates "[emp800, emp850]" "[attSunday, att10]" "[adv300]" "[pay500]"
      defaultSettings "''2024-01''" exampleStore]
  by (simp add: exampleStore_def)

section \<open>The order of months and days as strings\<close>

lemma str_lt_irrefl [simp]: "\<not> str_lt xs xs"
  by (induction xs) auto

lemma str_lt_append:
  "length xs = length ys \<Longrightarrow>
   str_lt (xs @ us) (ys @ vs) \<longleftrightarrow> str_lt xs ys \<or> (xs = ys \<and> str_lt us vs)"
proof (induction xs ys rule: list_induct2)
  case Nil
  then show ?case by simp
next
  case (Cons x xs y ys)
  then show ?case by (auto simp: not_less dest: order.antisym)
qed

lemma length_pad [simp]: "length (pad n k) = n"
  by (induction n arbitrary: k) auto

lemma of_char_digit_char: "d < 10 \<Longrightarrow> (of_char (digit_char d) :: nat) = 48 + d"
  by (simp add: digit_char_def)

lemma digit_char_inj: "d < 10 \<Longrightarrow> e < 10 \<Longrightarrow> digit_char d = digit_char e \<longleftrightarrow> d = e"
  by (simp add: digit_char_def)

lemma pad_inj: "k < 10 ^ n \<Longrightarrow> k' < 10 ^ n \<Longrightarrow> pad n k = pad n k' \<longleftrightarrow> k = k'"
proof (induction n arbitrary: k k')
  case 0
  then show ?case by simp
next
  case (Suc n)
  have a: "k div 10 < 10 ^ n" "k' div 10 < 10 ^ n"
    using Suc.prems by (simp_all add: less_mult_imp_div_less mult.commute)
  have "pad (Suc n) k = pad (Suc n) k' \<longleftrightarrow> k div 10 = k' div 10 \<and> k mod 10 = k' mod 10"
    using Suc.IH [OF a] by (simp add: digit_char_inj)
  also have "\<dots> \<longleftrightarrow> k = k'"
    by (metis div_mult_mod_eq)
  finally show ?case .
qed

lemma lex_digit:
  "r < 10 \<Longrightarrow> r' < 10 \<Longrightarrow>
   (q < q' \<or> (q = q' \<and> r < r')) \<longleftrightarrow> 10 * q + r < 10 * q' + (r' :: nat)"
  by auto

lemma str_lt_pad: "k < 10 ^ n \<Longrightarrow> k' < 10 ^ n \<Longrightarrow> str_lt (pad n k) (pad n k') \<longleftrightarrow> k < k'"
proof (induction n arbitrary: k k')
  case 0
  then show ?case by simp
next
  case (Suc n)
  have a: "k div 10 < 10 ^ n" "k' div 10 < 10 ^ n"
    using Suc.prems by (simp_all add: less_mult_imp_div_less mult.commute)
  have "str_lt (pad (Suc n) k) (pad (Suc n) k') \<longleftrightarrow>
        k div 10 < k' div 10 \<or> (k div 10 = k' div 10 \<and> k mod 10 < k' mod 10)"
    using Suc.IH [OF a] pad_inj [OF a]
    by (simp add: str_lt_append of_char_digit_char)
  also have "\<dots> \<longleftrightarrow> 10 * (k div 10) + k mod 10 < 10 * (k' div 10) + k' mod 10"
    by (rule lex_digit) simp_all
  also have "\<dots> \<longleftrightarrow> k < k'"
    by simp
  finally show ?case .
qed

lemma str_lt_monthStr:
  assumes "y < 10000" "y' < 10000" "m < 100" "m' < 100"
  shows "str_lt (monthStr y m) (monthStr y' m') \<longleftrightarrow> y < y' \<or> (y = y' \<and> m < m')"
proof -
  have y: "str_lt (pad 4 y) (pad 4 y') \<longleftrightarrow> y < y'" "pad 4 y = pad 4 y' \<longleftrightarrow> y = y'"
    using assms(1,2) by (simp_all add: str_lt_pad pad_inj)
  have m: "str_lt (pad 2 m) (pad 2 m') \<longleftrightarrow> m < m'"
    using assms(3,4) by (simp add: str_lt_pad)
  have "str_lt (monthStr y m) (monthStr y' m') \<longleftrightarrow>
        str_lt (pad 4 y) (pad 4 y') \<or> (pad 4 y = pad 4 y' \<and> str_lt (''-'' @ pad 2 m) (''-'' @ pad 2 m'))"
    unfolding monthStr_def by (rule str_lt_append) simp
  also have "str_lt (''-'' @ pad 2 m) (''-'' @ pad 2 m') \<longleftrightarrow> str_lt (pad 2 m) (pad 2 m')"
    by simp
  finally show ?thesis
    by (simp add: y m)
qed

lemma monthStr_inj:
  assumes "y < 10000" "y' < 10000" "m < 100" "m' < 100"
  shows "monthStr y m = monthStr y' m' \<longleftrightarrow> y = y' \<and> m = m'"
proof -
  have "pad 4 y = pad 4 y' \<longleftrightarrow> y = y'" "pad 2 m = pad 2 m' \<longleftrightarrow> m = m'"
    using assms by (simp_all add: pad_inj)
  then show ?thesis
    by (simp add: monthStr_def)
qed

lemma length_monthStr [simp]: "length (monthStr y m) = 7"
  by (simp add: monthStr_def)

text \<open>Reading a digit string and writing the number back.\<close>

lemma digits_val_snoc: "digits_val acc (cs @ [c]) = 10 * digits_val acc cs + digit_val c"
  by (induction cs arbitrary: acc) auto

lemma digit_char_val: "is_digit c \<Longrightarrow> digit_char (digit_val c) = c"
  by (simp add: is_digit_def digit_char_def digit_val_def)

lemma digit_val_less: "is_digit c \<Longrightarrow> digit_val c < 10"
  by (auto simp: is_digit_def digit_val_def)

lemma pad_digits_val: "list_all is_digit cs \<Longrightarrow> pad (length cs) (digits_val 0 cs) = cs"
proof (induction cs rule: rev_induct)
  case Nil
  then show ?case by simp
next
  case (snoc c cs)
  then have c: "is_digit c" and cs: "pad (length cs) (digits_val 0 cs) = cs"
    by simp_all
  show ?case
    using digit_val_less [OF c] by (simp add: digits_val_snoc cs digit_char_val [OF c])
qed

lemma digits_val_less: "list_all is_digit cs \<Longrightarrow> digits_val 0 cs < 10 ^ length cs"
proof (induction cs rule: rev_induct)
  case Nil
  then show ?case by simp
next
  case (snoc c cs)
  then have c: "digit_val c < 10" and cs: "digits_val 0 cs < 10 ^ length cs"
    by (simp_all add: digit_val_less)
  from cs have "10 * digits_val 0 cs + 10 \<le> 10 * 10 ^ length cs"
    by simp
  with c show ?case
    by (simp add: digits_val_snoc)
qed

lemma wf_month_monthStr:
  assumes "wf_month s"
  shows "s = monthStr (yearOf s) (monthOf s)" "yearOf s < 10000"
        "1 \<le> monthOf s" "monthOf s \<le> 12"
proof -
  from assms have len: "length s = 7" and y: "list_all is_digit (take 4 s)"
    and dash: "s ! 4 = CHR ''-''" and m: "list_all is_digit (drop 5 s)"
    and lo: "1 \<le> monthOf s" and hi: "monthOf s \<le> 12"
    by (simp_all add: wf_month_def)
  have d5: "take 2 (drop 5 s) = drop 5 s"
    using len by simp
  have "pad (length (take 4 s)) (digits_val 0 (take 4 s)) = take 4 s"
    by (rule pad_digits_val [OF y])
  then have py: "pad 4 (yearOf s) = take 4 s"
    using len by (simp add: yearOf_def)
  have "pad (length (drop 5 s)) (digits_val 0 (drop 5 s)) = drop 5 s"
    by (rule pad_digits_val [OF m])
  then have pm: "pad 2 (monthOf s) = drop 5 s"
    using len by (simp add: monthOf_def d5)
  have "s = take 4 s @ drop 4 s"
    by simp
  also have "drop 4 s = s ! 4 # drop 5 s"
    using len Cons_nth_drop_Suc [of 4 s] by simp
  finally show "s = monthStr (yearOf s) (monthOf s)"
    by (simp add: monthStr_def py pm dash)
  have "digits_val 0 (take 4 s) < 10 ^ length (take 4 s)"
    by (rule digits_val_less [OF y])
  then show "yearOf s < 10000"
    using len by (simp add: yearOf_def)
  show "1 \<le> monthOf s" "monthOf s \<le> 12"
    by (rule lo, rule hi)
qed

lemma pad_2: "pad 2 k = [digit_char (k div 10 mod 10), digit_char (k mod 10)]"
proof -
  have "pad (Suc (Suc 0)) k = [digit_char (k div 10 mod 10), digit_char (k mod 10)]"
    by simp
  moreover have "(2::nat) = Suc (Suc 0)"
    by simp
  ultimately show ?thesis
    by (simp only:)
qed

lemma pad_4:
  "pad 4 k = [digit_char (k div 10 div 10 div 10 mod 10), digit_char (k div 10 div 10 mod 10),
              digit_char (k div 10 mod 10), digit_char (k mod 10)]"
proof -
  have "pad (Suc (Suc (Suc (Suc 0)))) k =
          [digit_char (k div 10 div 10 div 10 mod 10), digit_char (k div 10 div 10 mod 10),
           digit_char (k div 10 mod 10), digit_char (k mod 10)]"
    by simp
  moreover have "(4::nat) = Suc (Suc (Suc (Suc 0)))"
    by simp
  ultimately show ?thesis
    by (simp only:)
qed

lemma monthStr_last: "monthStr 9999 12 = ''9999-12''"
  by (simp add: monthStr_def pad_2 pad_4 digit_char_def char_of_eq_iff take_bit_eq_mod)

lemma nextMonth_example: "nextMonth ''2024-12'' = ''2025-01''"
  by (simp add: nextMonth_def monthOf_def yearOf_def digit_val_def monthStr_def pad_2 pad_4 digit_char_def char_of_eq_iff take_bit_eq_mod)

lemma length_nextMonth [simp]: "length (nextMonth M) = 7"
  by (simp add: nextMonth_def)


lemma str_lt_nextMonth:
  assumes k: "wf_month k" and M: "wf_month M" and last: "M \<noteq> ''9999-12''"
  shows "str_lt k (nextMonth M) \<longleftrightarrow> str_lt k M \<or> k = M"
proof -
  note kk = wf_month_monthStr [OF k] and mm = wf_month_monthStr [OF M]
  have notlast: "yearOf M < 9999 \<or> monthOf M < 12"
  proof (rule ccontr)
    assume "\<not> (yearOf M < 9999 \<or> monthOf M < 12)"
    with mm(2,4) have "yearOf M = 9999" "monthOf M = 12" by simp_all
    with mm(1) have "M = ''9999-12''" by (simp add: monthStr_last)
    with last show False by simp
  qed
  have lt: "str_lt k M \<longleftrightarrow> yearOf k < yearOf M \<or> (yearOf k = yearOf M \<and> monthOf k < monthOf M)"
    using str_lt_monthStr [of "yearOf k" "yearOf M" "monthOf k" "monthOf M"] kk mm by simp
  have eq: "k = M \<longleftrightarrow> yearOf k = yearOf M \<and> monthOf k = monthOf M"
    using monthStr_inj [of "yearOf k" "yearOf M" "monthOf k" "monthOf M"] kk mm by simp
  show ?thesis
  proof (cases "monthOf M = 12")
    case True
    with notlast have y: "yearOf M + 1 < 10000" by simp
    have "str_lt k (nextMonth M) \<longleftrightarrow> str_lt (monthStr (yearOf k) (monthOf k)) (monthStr (yearOf M + 1) 1)"
      using kk(1) True by (simp add: nextMonth_def)
    also have "\<dots> \<longleftrightarrow> yearOf k < yearOf M + 1 \<or> (yearOf k = yearOf M + 1 \<and> monthOf k < 1)"
      using kk y by (intro str_lt_monthStr) simp_all
    also have "\<dots> \<longleftrightarrow> str_lt k M \<or> k = M"
      using kk(3,4) True by (auto simp: lt eq)
    finally show ?thesis .
  next
    case False
    with mm have m: "monthOf M + 1 < 100" by simp
    have "str_lt k (nextMonth M) \<longleftrightarrow> str_lt (monthStr (yearOf k) (monthOf k)) (monthStr (yearOf M) (monthOf M + 1))"
      using kk(1) False by (simp add: nextMonth_def)
    also have "\<dots> \<longleftrightarrow> yearOf k < yearOf M \<or> (yearOf k = yearOf M \<and> monthOf k < monthOf M + 1)"
      using kk mm m by (intro str_lt_monthStr) simp_all
    also have "\<dots> \<longleftrightarrow> str_lt k M \<or> k = M"
      by (auto simp: lt eq)
    finally show ?thesis .
  qed
qed

lemma str_lt_two:
  "str_lt [a, b] [c, d] \<longleftrightarrow>
   (of_char a :: nat) < of_char c \<or> ((of_char a :: nat) = of_char c \<and> (of_char b :: nat) < of_char d)"
  by (auto simp: not_less dest: order.antisym)

lemma wf_date_day:
  assumes "wf_date d"
  shows "\<not> str_lt (drop 7 d) ''-01''"
proof -
  from assms have len: "length d = 10" and dash: "d ! 7 = CHR ''-''"
    and dig: "list_all is_digit (drop 8 d)" and lo: "1 \<le> dayOf d"
    by (simp_all add: wf_date_def)
  have d7: "drop 7 d = d ! 7 # drop 8 d"
    using len Cons_nth_drop_Suc [of 7 d] by simp
  have d8: "drop 8 d = d ! 8 # drop 9 d"
    using len Cons_nth_drop_Suc [of 8 d] by simp
  have d9: "drop 9 d = [d ! 9]"
    using len Cons_nth_drop_Suc [of 9 d] by simp
  have digs: "is_digit (d ! 8)" "is_digit (d ! 9)"
    using dig by (simp_all add: d8 d9)
  have day: "dayOf d = 10 * digit_val (d ! 8) + digit_val (d ! 9)"
    using len by (simp add: dayOf_def d8 d9)
  have "str_lt (drop 7 d) ''-01'' \<longleftrightarrow>
        (of_char (d ! 8) :: nat) < 48 \<or> ((of_char (d ! 8) :: nat) = 48 \<and> (of_char (d ! 9) :: nat) < 49)"
    by (simp add: d7 d8 d9 dash str_lt_two)
  moreover have "48 \<le> (of_char (d ! 8) :: nat)" "48 \<le> (of_char (d ! 9) :: nat)"
    using digs by (simp_all add: is_digit_def)
  moreover have "1 \<le> 10 * ((of_char (d ! 8) :: nat) - 48) + ((of_char (d ! 9) :: nat) - 48)"
    using lo by (simp add: day digit_val_def)
  ultimately show ?thesis
    by linarith
qed

lemma past_date_month:
  assumes d: "wf_date d" and M: "length M = 7"
  shows "str_lt d (M @ ''-01'') \<longleftrightarrow> str_lt (take 7 d) M"
proof -
  from d have len: "length d = 10" by (simp add: wf_date_def)
  have "str_lt (take 7 d @ drop 7 d) (M @ ''-01'') \<longleftrightarrow>
        str_lt (take 7 d) M \<or> (take 7 d = M \<and> str_lt (drop 7 d) ''-01'')"
    using len M by (intro str_lt_append) simp
  then show ?thesis
    using wf_date_day [OF d] by simp
qed

lemma startsWith_month: "length M = 7 \<Longrightarrow> startsWith d M \<longleftrightarrow> take 7 d = M"
  by (simp add: startsWith_def)

section \<open>Carrying the balance forward\<close>

lemma previousBalance_statement:
  "previousBalance (computeStatement tv stdHours slabBase atts advs pays month emp) =
   computePreviousBalance stdHours slabBase atts advs pays month emp"
  by (simp add: computeStatement_def Let_def)

text \<open>
  C7. Let the employee's attendance dates be days, the deduction months of the employee's
  advances and the salary months of the employee's payments be months, all in the data
  model's format, and let \<open>M\<close> be a month other than \<^verbatim>\<open>9999-12\<close> (whose successor has no
  four-digit year). If the employee has no attendance record dated in \<open>M\<close>, no advance
  deducted in \<open>M\<close> and no payment for \<open>M\<close>, then the previous balance computed for the month
  after \<open>M\<close> is the previous balance computed for \<open>M\<close> (the same value, \<^verbatim>\<open>NaN\<close> included).
\<close>

theorem carry_forward:
  assumes M: "wf_month M" and last: "M \<noteq> ''9999-12''"
      and atts: "\<forall>a \<in> set atts. att_employeeId a = emp_id emp \<longrightarrow> wf_date (att_date a)"
      and advs: "\<forall>a \<in> set advs. adv_employeeId a = emp_id emp \<longrightarrow> wf_month (deduct a)"
      and pays: "\<forall>p \<in> set pays. pay_employeeId p = emp_id emp \<longrightarrow> wf_month (pay_salaryMonth p)"
      and noAtt: "empAtt atts emp M = []"
      and noAdv: "empAdv advs emp M = []"
      and noPay: "empPay pays emp M = []"
  shows "previousBalance (computeStatement tv stdHours slabBase atts advs pays (nextMonth M) emp)
       = previousBalance (computeStatement tv stdHours slabBase atts advs pays M emp)"
proof -
  have lenM: "length M = 7"
    using M by (simp add: wf_month_def)
  have att: "pastAtt atts emp (nextMonth M) = pastAtt atts emp M"
    unfolding pastAtt_def
  proof (rule filter_cong [OF refl])
    fix a assume a: "a \<in> set atts"
    show "(att_employeeId a = emp_id emp \<and> str_lt (att_date a) (nextMonth M @ ''-01'')) =
          (att_employeeId a = emp_id emp \<and> str_lt (att_date a) (M @ ''-01''))"
    proof (cases "att_employeeId a = emp_id emp")
      case True
      with atts a have d: "wf_date (att_date a)" by blast
      then have k: "wf_month (take 7 (att_date a))" by (simp add: wf_date_def)
      from noAtt a True have "\<not> startsWith (att_date a) M"
        by (auto simp: empAtt_def filter_empty_conv)
      then have ne: "take 7 (att_date a) \<noteq> M"
        by (simp add: startsWith_month [OF lenM])
      have "str_lt (att_date a) (nextMonth M @ ''-01'') \<longleftrightarrow> str_lt (take 7 (att_date a)) (nextMonth M)"
        by (rule past_date_month [OF d]) simp
      also have "\<dots> \<longleftrightarrow> str_lt (take 7 (att_date a)) M"
        using str_lt_nextMonth [OF k M last] ne by simp
      also have "\<dots> \<longleftrightarrow> str_lt (att_date a) (M @ ''-01'')"
        by (rule past_date_month [OF d lenM, symmetric])
      finally show ?thesis by simp
    next
      case False
      then show ?thesis by simp
    qed
  qed
  have adv: "pastAdv advs emp (nextMonth M) = pastAdv advs emp M"
    unfolding pastAdv_def
  proof (rule filter_cong [OF refl])
    fix a assume a: "a \<in> set advs"
    show "(if adv_employeeId a \<noteq> emp_id emp then False else str_lt (deduct a) (nextMonth M)) =
          (if adv_employeeId a \<noteq> emp_id emp then False else str_lt (deduct a) M)"
    proof (cases "adv_employeeId a = emp_id emp")
      case True
      with advs a have k: "wf_month (deduct a)" by blast
      from noAdv a True have ne: "deduct a \<noteq> M"
        by (auto simp: empAdv_def filter_empty_conv)
      show ?thesis
        using str_lt_nextMonth [OF k M last] ne True by simp
    next
      case False
      then show ?thesis by simp
    qed
  qed
  have pay: "pastPay pays emp (nextMonth M) = pastPay pays emp M"
    unfolding pastPay_def
  proof (rule filter_cong [OF refl])
    fix p assume p: "p \<in> set pays"
    show "(pay_employeeId p = emp_id emp \<and> str_lt (pay_salaryMonth p) (nextMonth M)) =
          (pay_employeeId p = emp_id emp \<and> str_lt (pay_salaryMonth p) M)"
    proof (cases "pay_employeeId p = emp_id emp")
      case True
      with pays p have k: "wf_month (pay_salaryMonth p)" by blast
      from noPay p True have ne: "pay_salaryMonth p \<noteq> M"
        by (auto simp: empPay_def filter_empty_conv)
      show ?thesis
        using str_lt_nextMonth [OF k M last] ne True by simp
    next
      case False
      then show ?thesis by simp
    qed
  qed
  show ?thesis
    by (simp add: previousBalance_statement computePreviousBalance_def att adv pay)
qed

lemmas month_eval = wf_date_def wf_month_def monthOf_def yearOf_def dayOf_def is_digit_def
  digit_val_def nextMonth_def monthStr_def pad_2 pad_4 digit_char_def char_of_eq_iff take_bit_eq_mod

theorem carry_forward_witness:
  "nextMonth ''2024-02'' = ''2024-03''
   \<and> previousBalance (computeStatement noDates (Fin (17 / 2)) (Fin 6) [attSunday, att10] [adv300] [pay500] ''2024-02'' emp850)
       = Fin 303
   \<and> previousBalance (computeStatement noDates (Fin (17 / 2)) (Fin 6) [attSunday, att10] [adv300] [pay500] ''2024-03'' emp850)
       = Fin 303"
proof -
  have M: "wf_month ''2024-02''" "''2024-02'' \<noteq> ''9999-12''"
    by (simp_all add: month_eval)
  have nm: "nextMonth ''2024-02'' = ''2024-03''"
    by (simp add: month_eval)
  have atts: "\<forall>a \<in> set [attSunday, att10]. att_employeeId a = emp_id emp850 \<longrightarrow> wf_date (att_date a)"
    by (simp add: attSunday_def att10_def emp850_def month_eval)
  have advs: "\<forall>a \<in> set [adv300]. adv_employeeId a = emp_id emp850 \<longrightarrow> wf_month (deduct a)"
    by (simp add: adv300_def deduct_def month_eval)
  have pays: "\<forall>p \<in> set [pay500]. pay_employeeId p = emp_id emp850 \<longrightarrow> wf_month (pay_salaryMonth p)"
    by (simp add: pay500_def month_eval)
  have none: "empAtt [attSunday, att10] emp850 ''2024-02'' = []"
    "empAdv [adv300] emp850 ''2024-02'' = []" "empPay [pay500] emp850 ''2024-02'' = []"
    by (simp_all add: empAtt_def empAdv_def empPay_def startsWith_def deduct_def
        attSunday_def att10_def adv300_def pay500_def emp850_def)
  have feb: "previousBalance (computeStatement noDates (Fin (17 / 2)) (Fin 6) [attSunday, att10] [adv300] [pay500] ''2024-02'' emp850)
       = Fin 303"
    using att10_hours
    by (simp add: previousBalance_statement computePreviousBalance_def pastAtt_def pastAdv_def
        pastPay_def pastEarnings_def sumAdvances_def sumPayments_def deduct_def or_zero_def
        dailySalary_def jgt_def jsub_def attSunday_def att10_def adv300_def pay500_def emp850_def)
  show ?thesis
    using carry_forward [OF M atts advs pays none, of noDates "Fin (17 / 2)" "Fin 6"] feb nm
    by simp
qed

section \<open>The deduction month of an advance\<close>

lemma deduct_advMarch: "deduct advMarch = ''2024-03''"
  by (simp add: deduct_def advMarch_def)

lemma march: "monthStr 2024 3 = ''2024-03''"
  by (simp add: month_eval)

text \<open>
  C6. The month an advance is deducted in is its \<^verbatim>\<open>deductionMonth\<close> when that is present
  (and not empty), else the first seven characters of its \<^verbatim>\<open>date\<close>. An advance is summed
  into a month's \<^verbatim>\<open>advancePaid\<close> exactly when that month is its deduction month, and into the
  past deductions of a month exactly when its deduction month is below that month. The
  advance dated \<^verbatim>\<open>2024-01-15\<close> with \<^verbatim>\<open>deductionMonth = "2024-03"\<close> is summed into the
  advances of March 2024 and of no other month, and into the past deductions of no month up
  to and including March 2024.
\<close>

theorem deduction_month:
  "(\<forall>m. adv_deductionMonth a = Some m \<and> m \<noteq> [] \<longrightarrow> deduct a = m)
   \<and> (\<forall>d. (adv_deductionMonth a = None \<or> adv_deductionMonth a = Some []) \<and> adv_date a = Some d
          \<longrightarrow> deduct a = take 7 d)
   \<and> (a \<in> set (empAdv advs emp month) \<longleftrightarrow>
        a \<in> set advs \<and> adv_employeeId a = emp_id emp \<and> deduct a = month)
   \<and> (a \<in> set (pastAdv advs emp month) \<longleftrightarrow>
        a \<in> set advs \<and> adv_employeeId a = emp_id emp \<and> str_lt (deduct a) month)
   \<and> (advMarch \<in> set (empAdv advs emp month) \<longleftrightarrow>
        advMarch \<in> set advs \<and> emp_id emp = ''e2'' \<and> month = ''2024-03'')
   \<and> (\<forall>y m. y < 10000 \<and> m < 100 \<and> (y < 2024 \<or> (y = 2024 \<and> m \<le> 3)) \<longrightarrow>
          advMarch \<notin> set (pastAdv advs emp (monthStr y m)))"
proof (intro conjI allI impI)
  fix m assume "adv_deductionMonth a = Some m \<and> m \<noteq> []"
  then show "deduct a = m" by (simp add: deduct_def)
next
  fix d assume "(adv_deductionMonth a = None \<or> adv_deductionMonth a = Some []) \<and> adv_date a = Some d"
  then show "deduct a = take 7 d" by (auto simp: deduct_def)
next
  show "a \<in> set (empAdv advs emp month) \<longleftrightarrow>
        a \<in> set advs \<and> adv_employeeId a = emp_id emp \<and> deduct a = month"
    by (auto simp: empAdv_def)
next
  show "a \<in> set (pastAdv advs emp month) \<longleftrightarrow>
        a \<in> set advs \<and> adv_employeeId a = emp_id emp \<and> str_lt (deduct a) month"
    by (auto simp: pastAdv_def)
next
  show "advMarch \<in> set (empAdv advs emp month) \<longleftrightarrow>
        advMarch \<in> set advs \<and> emp_id emp = ''e2'' \<and> month = ''2024-03''"
    by (auto simp: empAdv_def deduct_advMarch) (simp_all add: advMarch_def)
next
  fix y m :: nat
  assume b: "y < 10000 \<and> m < 100 \<and> (y < 2024 \<or> (y = 2024 \<and> m \<le> 3))"
  have "str_lt (monthStr 2024 3) (monthStr y m) \<longleftrightarrow> 2024 < y \<or> (2024 = y \<and> 3 < m)"
    using b by (intro str_lt_monthStr) simp_all
  with b have "\<not> str_lt ''2024-03'' (monthStr y m)"
    by (auto simp: march)
  then show "advMarch \<notin> set (pastAdv advs emp (monthStr y m))"
    by (simp add: pastAdv_def deduct_advMarch)
qed

theorem deduction_month_witness:
  "advancePaid (computeStatement noDates (Fin (17 / 2)) (Fin 6) [] [advMarch] [] ''2024-03'' emp850) = Fin 1000
   \<and> advancePaid (computeStatement noDates (Fin (17 / 2)) (Fin 6) [] [advMarch] [] ''2024-01'' emp850) = Fin 0
   \<and> previousBalance (computeStatement noDates (Fin (17 / 2)) (Fin 6) [] [advMarch] [] ''2024-02'' emp850) = Fin 0
   \<and> previousBalance (computeStatement noDates (Fin (17 / 2)) (Fin 6) [] [advMarch] [] ''2024-03'' emp850) = Fin 0
   \<and> previousBalance (computeStatement noDates (Fin (17 / 2)) (Fin 6) [] [advMarch] [] ''2024-04'' emp850) = Fin (- 1000)"
proof -
  have c5: "advMarch \<in> set (empAdv [advMarch] emp850 month) \<longleftrightarrow>
              advMarch \<in> set [advMarch] \<and> emp_id emp850 = ''e2'' \<and> month = ''2024-03''" for month
    using deduction_month [of advMarch "[advMarch]" emp850 month] by blast
  have c6: "y < 10000 \<and> m < 100 \<and> (y < 2024 \<or> (y = 2024 \<and> m \<le> 3)) \<longrightarrow>
              advMarch \<notin> set (pastAdv [advMarch] emp850 (monthStr y m))" for y m
    using deduction_month [of advMarch "[advMarch]" emp850 "[]"] by blast
  have c4: "advMarch \<in> set (pastAdv [advMarch] emp850 month) \<longleftrightarrow>
              advMarch \<in> set [advMarch] \<and> adv_employeeId advMarch = emp_id emp850 \<and> str_lt (deduct advMarch) month" for month
    using deduction_month [of advMarch "[advMarch]" emp850 month] by blast
  have e: "emp_id emp850 = ''e2''" "adv_employeeId advMarch = ''e2''"
    by (simp_all add: emp850_def advMarch_def)
  have amt: "or_zero (parseFloat (adv_amount advMarch)) = Fin 1000"
    by (simp add: advMarch_def or_zero_def)
  have in3: "advMarch \<in> set (empAdv [advMarch] emp850 ''2024-03'')"
    using c5 [of "''2024-03''"] e by simp
  have out1: "advMarch \<notin> set (empAdv [advMarch] emp850 ''2024-01'')"
    using c5 [of "''2024-01''"] by simp
  have feb: "monthStr 2024 2 = ''2024-02''"
    by (simp add: month_eval)
  have p2: "advMarch \<notin> set (pastAdv [advMarch] emp850 ''2024-02'')"
    using c6 [of 2024 2] by (simp add: feb)
  have p3: "advMarch \<notin> set (pastAdv [advMarch] emp850 ''2024-03'')"
    using c6 [of 2024 3] by (simp add: march)
  have p4: "advMarch \<in> set (pastAdv [advMarch] emp850 ''2024-04'')"
    using c4 [of "''2024-04''"] e by (simp add: deduct_advMarch)
  have l3: "empAdv [advMarch] emp850 ''2024-03'' = [advMarch]"
    using in3 by (simp add: empAdv_def split: if_splits)
  have l1: "empAdv [advMarch] emp850 ''2024-01'' = []"
    using out1 by (simp add: empAdv_def split: if_splits)
  have q2: "pastAdv [advMarch] emp850 ''2024-02'' = []"
    using p2 by (simp add: pastAdv_def split: if_splits)
  have q3: "pastAdv [advMarch] emp850 ''2024-03'' = []"
    using p3 by (simp add: pastAdv_def split: if_splits)
  have q4: "pastAdv [advMarch] emp850 ''2024-04'' = [advMarch]"
    using p4 by (simp add: pastAdv_def split: if_splits)
  show ?thesis
    by (simp add: computeStatement_def Let_def computePreviousBalance_def l1 l3 q2 q3 q4
        empAtt_def pastAtt_def empPay_def pastPay_def sumAdvances_def amt jsub_def)
qed

section \<open>Fields that are not numbers\<close>

text \<open>
  What does hold of the claim: the statement of an employee reads that employee's records
  only, so a record of another employee, whatever its fields hold, does not change it; and
  \<^verbatim>\<open>parseFloat\<close> and the arithmetic never throw.
\<close>

lemma own_records_only:
  "computeStatement tv stdHours slabBase atts advs pays month emp =
   computeStatement tv stdHours slabBase
     (filter (\<lambda>a. att_employeeId a = emp_id emp) atts)
     (filter (\<lambda>a. adv_employeeId a = emp_id emp) advs)
     (filter (\<lambda>p. pay_employeeId p = emp_id emp) pays) month emp"
proof -
  have att: "empAtt (filter (\<lambda>a. att_employeeId a = emp_id emp) atts) emp month = empAtt atts emp month"
    "pastAtt (filter (\<lambda>a. att_employeeId a = emp_id emp) atts) emp month = pastAtt atts emp month"
    by (auto simp: empAtt_def pastAtt_def intro: filter_cong)
  have adv: "empAdv (filter (\<lambda>a. adv_employeeId a = emp_id emp) advs) emp month = empAdv advs emp month"
    "pastAdv (filter (\<lambda>a. adv_employeeId a = emp_id emp) advs) emp month = pastAdv advs emp month"
    by (auto simp: empAdv_def pastAdv_def intro: filter_cong)
  have pay: "empPay (filter (\<lambda>p. pay_employeeId p = emp_id emp) pays) emp month = empPay pays emp month"
    "pastPay (filter (\<lambda>p. pay_employeeId p = emp_id emp) pays) emp month = pastPay pays emp month"
    by (auto simp: empPay_def pastPay_def intro: filter_cong)
  show ?thesis
    by (simp only: computeStatement_def computePreviousBalance_def att adv pay)
qed

text \<open>
  C3. The claim: a record whose \<^verbatim>\<open>salary\<close>, \<^verbatim>\<open>amount\<close> or \<^verbatim>\<open>workedHours\<close> is not a number
  contributes 0. The route guards \<^verbatim>\<open>fare\<close> and an advance's \<^verbatim>\<open>amount\<close> with \<^verbatim>\<open>|| 0\<close> but
  not \<^verbatim>\<open>workedHours\<close> or \<^verbatim>\<open>salary\<close>: with an attendance record whose \<^verbatim>\<open>workedHours\<close> is
  \<^verbatim>\<open>"abc"\<close> beside a good one, the day's pay is \<^verbatim>\<open>NaN\<close>, and so are the employee's
  \<^verbatim>\<open>salaryEarned\<close> and \<^verbatim>\<open>finalPayable\<close>; without the bad record they are 1063 and 1103.
  The same record's \<^verbatim>\<open>fare\<close>, also \<^verbatim>\<open>"abc"\<close>, does contribute 0.
\<close>

theorem malformed_hours_poison:
  "parseFloat (att_workedHours attBadHours) = NaN
   \<and> dailySalary (Fin (17 / 2)) (Fin 6) emp850 attBadHours = NaN
   \<and> salaryEarned (computeStatement noDates (Fin (17 / 2)) (Fin 6) [att10, attBadHours] [] [] ''2024-01'' emp850) = NaN
   \<and> finalPayable (computeStatement noDates (Fin (17 / 2)) (Fin 6) [att10, attBadHours] [] [] ''2024-01'' emp850) = NaN
   \<and> salaryEarned (computeStatement noDates (Fin (17 / 2)) (Fin 6) [att10] [] [] ''2024-01'' emp850) = Fin 1063
   \<and> finalPayable (computeStatement noDates (Fin (17 / 2)) (Fin 6) [att10] [] [] ''2024-01'' emp850) = Fin 1103
   \<and> totalFare [attBadHours] = Fin 0"
proof -
  have h: "parseFloat (att_workedHours attBadHours) = NaN"
    by (simp add: attBadHours_def parse_defs)
  have d: "dailySalary (Fin (17 / 2)) (Fin 6) emp850 attBadHours = NaN"
    by (simp add: dailySalary_def Let_def h) (simp add: attBadHours_def emp850_def)
  have d10: "dailySalary (Fin (17 / 2)) (Fin 6) emp850 att10 = Fin (2125 / 2)"
    using att10_hours by (simp add: dailySalary_def Let_def jgt_def jsub_def emp850_def att10_def)
  have f: "totalFare [attBadHours] = Fin 0"
    by (simp add: totalFare_def or_zero_def attBadHours_def parse_defs)
  have f10: "totalFare [att10] = Fin 40"
    by (simp add: totalFare_def or_zero_def att10_def)
  have l2: "empAtt [att10, attBadHours] emp850 ''2024-01'' = [att10, attBadHours]"
    by (simp add: empAtt_def startsWith_def att10_def attBadHours_def emp850_def)
  have l1: "empAtt [att10] emp850 ''2024-01'' = [att10]"
    by (simp add: empAtt_def startsWith_def att10_def emp850_def)
  have t2: "totalSalary (Fin (17 / 2)) (Fin 6) emp850 [att10, attBadHours] = NaN"
    by (simp add: totalSalary_def d d10)
  have t1: "totalSalary (Fin (17 / 2)) (Fin 6) emp850 [att10] = Fin (2125 / 2)"
    by (simp add: totalSalary_def d10)
  have p2: "pastAtt [att10, attBadHours] emp850 ''2024-01'' = []"
    by (simp add: pastAtt_def att10_def attBadHours_def emp850_def)
  have p1: "pastAtt [att10] emp850 ''2024-01'' = []"
    by (simp add: pastAtt_def att10_def emp850_def)
  have prev: "computePreviousBalance (Fin (17 / 2)) (Fin 6) [att10, attBadHours] [] [] ''2024-01'' emp850 = Fin 0"
      "computePreviousBalance (Fin (17 / 2)) (Fin 6) [att10] [] [] ''2024-01'' emp850 = Fin 0"
    by (simp_all add: computePreviousBalance_def p1 p2 pastAdv_def pastPay_def jsub_def)
  show ?thesis
    by (simp add: h d f computeStatement_def Let_def l1 l2 t1 t2 f10 prev empAdv_def empPay_def jsub_def)
qed

section \<open>Zero in the settings\<close>

text \<open>
  C4 as stated asks that a write of a zero be rejected and that a zero met by the
  computation give a value of 0. The write of \<^verbatim>\<open>standardHours = 0, slabHours = 0\<close> is
  answered with the stored row, and with these settings a day of 8.5 hours at a salary of
  850 is paid 850: the zeros are replaced by the defaults 8.5 and 6.
\<close>

theorem zero_settings_counterexample:
  "post_settings (Some defaultSettings) zeroSettings = (Json200 zeroSettings, Some zeroSettings)
   \<and> dailySalary (stdHours_of zeroSettings) (slabBase_of zeroSettings) emp850 att85 = Fin 850"
  by (simp add: post_settings_def updateSettings_def zeroSettings_def stdHours_of_def slabBase_of_def
      dailySalary_def Let_def jgt_def att85_def emp850_def)

text \<open>
  C4, as the code has it. A settings write is stored as given whenever the row exists. A
  falsy \<^verbatim>\<open>standardHours\<close> (zero, \<^verbatim>\<open>NaN\<close>, empty, missing) is read as 8.5 and a falsy
  \<^verbatim>\<open>slabHours\<close> as 6, so a setting that is a number is never read as zero and no division
  by zero follows from it; the payroll with a zero setting is the payroll with the default
  in its place.
\<close>

theorem zero_settings_default:
  "post_settings (Some r) s = (Json200 s, Some s)
   \<and> (\<not> truthy (standardHours s) \<longrightarrow> stdHours_of s = Fin (17 / 2))
   \<and> (\<not> truthy (slabHours s) \<longrightarrow> slabBase_of s = Fin 6)
   \<and> (\<forall>n. standardHours s = JNum n \<longrightarrow> stdHours_of s \<noteq> Fin 0)
   \<and> (\<forall>n. slabHours s = JNum n \<longrightarrow> slabBase_of s \<noteq> Fin 0)
   \<and> (standardHours s = JNum (Fin 0) \<longrightarrow>
        computePayroll tv emps atts advs pays s month =
        computePayroll tv emps atts advs pays (s\<lparr>standardHours := JNum (Fin (17 / 2))\<rparr>) month)
   \<and> (slabHours s = JNum (Fin 0) \<longrightarrow>
        computePayroll tv emps atts advs pays s month =
        computePayroll tv emps atts advs pays (s\<lparr>slabHours := JNum (Fin 6)\<rparr>) month)"
  by (auto simp: post_settings_def updateSettings_def stdHours_of_def slabBase_of_def computePayroll_def)

theorem zero_settings_default_witness:
  "post_settings (Some defaultSettings) zeroSettings = (Json200 zeroSettings, Some zeroSettings)
   \<and> \<not> truthy (standardHours zeroSettings) \<and> stdHours_of zeroSettings = Fin (17 / 2)
   \<and> \<not> truthy (slabHours zeroSettings) \<and> slabBase_of zeroSettings = Fin 6
   \<and> computePayroll noDates [emp850] [att85] [] [] zeroSettings ''2024-01'' =
       computePayroll noDates [emp850] [att85] [] [] defaultSettings ''2024-01''"
proof -
  have z: "standardHours zeroSettings = JNum (Fin 0)" "slabHours zeroSettings = JNum (Fin 0)"
    by (simp_all add: zeroSettings_def)
  have d: "zeroSettings\<lparr>standardHours := JNum (Fin (17 / 2))\<rparr>\<lparr>slabHours := JNum (Fin 6)\<rparr> = defaultSettings"
    by (simp add: zeroSettings_def defaultSettings_def)
  have z2: "slabHours (zeroSettings\<lparr>standardHours := JNum (Fin (17 / 2))\<rparr>) = JNum (Fin 0)"
    by (simp add: zeroSettings_def)
  show ?thesis
    using zero_settings_default [of defaultSettings zeroSettings noDates "[emp850]" "[att85]" "[]" "[]" "''2024-01''"]
      zero_settings_default [of defaultSettings "zeroSettings\<lparr>standardHours := JNum (Fin (17 / 2))\<rparr>" noDates "[emp850]" "[att85]" "[]" "[]" "''2024-01''"]
    by (simp add: z z2 d)
qed

section \<open>The computation is a function of its inputs and leaves them alone\<close>

lemma statement_run_pure:
  assumes "r < lim h"
  shows "fst (statement_run tv stdHours slabBase atts advs r month emp h) =
           computeStatement tv stdHours slabBase atts advs (cells h r) month emp"
    and "lim h \<le> lim (snd (statement_run tv stdHours slabBase atts advs r month emp h))"
    and "\<forall>a < lim h. cells (snd (statement_run tv stdHours slabBase atts advs r month emp h)) a = cells h a"
  using assms
  by (simp_all add: statement_run_def computeStatement_def computePreviousBalance_def
      array_filter_def array_sort_in_place_def empPay_def pastPay_def Let_def)

lemma map_run_pure:
  assumes "r < lim h"
  shows "fst (map_run (statement_run tv stdHours slabBase atts advs r month) emps h) =
           map (computeStatement tv stdHours slabBase atts advs (cells h r) month) emps
       \<and> lim h \<le> lim (snd (map_run (statement_run tv stdHours slabBase atts advs r month) emps h))
       \<and> (\<forall>a < lim h. cells (snd (map_run (statement_run tv stdHours slabBase atts advs r month) emps h)) a = cells h a)"
  using assms
proof (induction emps arbitrary: h)
  case Nil
  then show ?case by simp
next
  case (Cons emp emps)
  let ?f = "statement_run tv stdHours slabBase atts advs r month"
  obtain st h1 where s: "?f emp h = (st, h1)" by (cases "?f emp h")
  note p = statement_run_pure [OF Cons.prems, of tv stdHours slabBase atts advs month emp]
  from p s have st: "st = computeStatement tv stdHours slabBase atts advs (cells h r) month emp"
    and l1: "lim h \<le> lim h1" and c1: "\<forall>a < lim h. cells h1 a = cells h a"
    by simp_all
  from l1 Cons.prems have r1: "r < lim h1" by simp
  note ih = Cons.IH [OF r1]
  obtain sts h2 where m: "map_run ?f emps h1 = (sts, h2)" by (cases "map_run ?f emps h1")
  from ih m have sts: "sts = map (computeStatement tv stdHours slabBase atts advs (cells h1 r) month) emps"
    and l2: "lim h1 \<le> lim h2" and c2: "\<forall>a < lim h1. cells h2 a = cells h1 a"
    by simp_all
  have "cells h1 r = cells h r" using c1 Cons.prems by simp
  with st sts l1 l2 c1 c2 show ?case
    by (simp add: s m)
qed

text \<open>
  C9. A run of the payroll computation on a store of arrays returns the list of statements
  that the function \<open>computePayroll\<close> gives for the payments array as it was before the
  run (the result depends on the inputs only), leaves every array that existed before the
  run as it was (the payments array among them), and a second run on the store the first
  one left behind returns the same list.
\<close>

theorem payroll_inputs_unchanged:
  assumes "paymentsRef < lim h"
  shows "fst (payroll_run tv emps atts advs paymentsRef st month h) =
           computePayroll tv emps atts advs (cells h paymentsRef) st month
       \<and> (\<forall>a < lim h. cells (snd (payroll_run tv emps atts advs paymentsRef st month h)) a = cells h a)
       \<and> fst (payroll_run tv emps atts advs paymentsRef st month
                (snd (payroll_run tv emps atts advs paymentsRef st month h))) =
         fst (payroll_run tv emps atts advs paymentsRef st month h)"
proof -
  let ?h' = "snd (payroll_run tv emps atts advs paymentsRef st month h)"
  note a = map_run_pure [OF assms, of tv "stdHours_of st" "slabBase_of st" atts advs month emps]
  from a have l: "lim h \<le> lim ?h'" and c: "\<forall>a < lim h. cells ?h' a = cells h a"
    by (simp_all add: payroll_run_def)
  from l assms have r': "paymentsRef < lim ?h'" by simp
  note b = map_run_pure [OF r', of tv "stdHours_of st" "slabBase_of st" atts advs month emps]
  have same: "cells ?h' paymentsRef = cells h paymentsRef" using c assms by simp
  from a have one: "fst (payroll_run tv emps atts advs paymentsRef st month h) =
           computePayroll tv emps atts advs (cells h paymentsRef) st month"
    by (simp add: payroll_run_def computePayroll_def)
  from b have two: "fst (payroll_run tv emps atts advs paymentsRef st month ?h') =
           computePayroll tv emps atts advs (cells ?h' paymentsRef) st month"
    by (simp add: payroll_run_def computePayroll_def)
  from one two same c show ?thesis by simp
qed

theorem payroll_inputs_unchanged_witness:
  "cells (snd (payroll_run exampleDates [emp800, emp850] [attSunday, att10] [adv300] 0
                 defaultSettings ''2024-01'' exampleArrays)) 0 = [pay500, pay200]
   \<and> fst (payroll_run exampleDates [emp800, emp850] [attSunday, att10] [adv300] 0
            defaultSettings ''2024-01'' exampleArrays) =
       computePayroll exampleDates [emp800, emp850] [attSunday, att10] [adv300] [pay500, pay200]
         defaultSettings ''2024-01''
   \<and> map lastPaymentDate
         (fst (payroll_run exampleDates [emp800, emp850] [attSunday, att10] [adv300] 0
                 defaultSettings ''2024-01'' exampleArrays)) = [None, Some ''2024-02-05'']"
proof -
  have r: "0 < lim exampleArrays" by (simp add: exampleArrays_def)
  have c: "cells exampleArrays 0 = [pay500, pay200]" by (simp add: exampleArrays_def)
  have e: "empPay [pay500, pay200] emp800 ''2024-01'' = []"
    "empPay [pay500, pay200] emp850 ''2024-01'' = [pay500, pay200]"
    by (simp_all add: empPay_def pay500_def pay200_def emp800_def emp850_def)
  have s: "array_sort (byDateDesc exampleDates) [pay500, pay200] = [pay200, pay500]"
    by (simp add: array_sort_def byDateDesc_def exampleDates_def pay500_def pay200_def jsub_def jgt_def)
  have l: "map lastPaymentDate
             (computePayroll exampleDates [emp800, emp850] [attSunday, att10] [adv300] [pay500, pay200]
                defaultSettings ''2024-01'') = [None, Some ''2024-02-05'']"
    by (simp add: computePayroll_def computeStatement_def Let_def e s) (simp add: pay200_def)
  show ?thesis
    using payroll_inputs_unchanged [OF r, of exampleDates "[emp800, emp850]" "[attSunday, att10]"
        "[adv300]" defaultSettings "''2024-01''"] r
    by (simp add: c l)
qed

end
